theory Spec2Isabelle
  imports Complex_Main "HOL-Library.AList" "HOL-Library.Sublist"
begin

section \<open>Conventions of the embedding\<close>

text \<open>
  The development embeds \<^verbatim>\<open>afl_bench/experiments/rate_tracker.py\<close> (the cadence tracker
  and the aggregation function of the strategy) and the client-runtime parser of
  \<^verbatim>\<open>afl_bench/experiments/utils.py\<close>.

  \<^item> Python exceptions are values of \<open>error\<close>; a call that can raise returns
    \<open>error + 'a\<close> with \<open>Inl\<close> for the exception.
  \<^item> The Python floats of the tracker and of the weights (timestamps, rates, ratios,
    weights) are idealised as exact reals. A float division by zero raises
    \<open>ZeroDivisionError\<close>, as in Python.
  \<^item> \<^verbatim>\<open>time.time()\<close> is an input: every call that reads the clock takes the reading
    as an argument.
  \<^item> The module-level objects \<^verbatim>\<open>rate_tracker\<close> and \<^verbatim>\<open>num_clients\<close> are passed
    explicitly; a function that mutates the tracker returns the new tracker.
  \<^item> The tensors and the operations of torch are parameters of the aggregation function:
    what is proved about it holds whatever torch computes (broadcasting, rounding,
    infinities and NaN included).
\<close>

datatype error =
  ValueError | ZeroDivisionError | AssertionError | IndexError | KeyError | RuntimeError

text \<open>
  A comprehension or a loop whose body can raise: the elements are visited from left to
  right and the first exception ends the whole loop.
\<close>

fun map_raising :: "('a \<Rightarrow> error + 'b) \<Rightarrow> 'a list \<Rightarrow> error + 'b list" where
  "map_raising f [] = Inr []"
| "map_raising f (x # xs) =
     (case f x of
        Inl e \<Rightarrow> Inl e
      | Inr y \<Rightarrow> (case map_raising f xs of Inl e \<Rightarrow> Inl e | Inr ys \<Rightarrow> Inr (y # ys)))"

section \<open>RateTracker\<close>

text \<open>
  \<^verbatim>\<open>client_update\<close> is a \<^verbatim>\<open>defaultdict(list)\<close>: an insertion-ordered dictionary in
  which reading a missing key first inserts the key with an empty list.
\<close>

type_synonym client_dict = "(int \<times> real list) list"

record RateTracker =
  window_size :: nat
  client_update :: client_dict

definition RateTracker_init :: "nat \<Rightarrow> RateTracker" where
  "RateTracker_init ws = \<lparr>window_size = ws, client_update = []\<rparr>"

definition getitem :: "client_dict \<Rightarrow> int \<Rightarrow> real list \<times> client_dict" where
  "getitem d k =
     (case map_of d k of
        Some w \<Rightarrow> (w, d)
      | None \<Rightarrow> ([], d @ [(k, [])]))"

text \<open>The list stored under a key, as an observer sees it (no insertion).\<close>

definition timestamps :: "RateTracker \<Rightarrow> int \<Rightarrow> real list" where
  "timestamps rt k = (case map_of (client_update rt) k of Some w \<Rightarrow> w | None \<Rightarrow> [])"

text \<open>
  \<^verbatim>\<open>track_update\<close>: \<^verbatim>\<open>list.pop()\<close> without an argument removes the LAST element and
  raises \<open>IndexError\<close> on an empty list; \<^verbatim>\<open>append\<close> adds at the end. The second
  argument is the reading of \<^verbatim>\<open>time.time()\<close>.
\<close>

definition track_update :: "int \<Rightarrow> real \<Rightarrow> RateTracker \<Rightarrow> (error + unit) \<times> RateTracker" where
  "track_update client_id now rt =
     (let (w, d) = getitem (client_update rt) client_id in
      if length w \<ge> window_size rt then
        (if w = [] then (Inl IndexError, rt\<lparr>client_update := d\<rparr>)
         else (Inr (), rt\<lparr>client_update := AList.update client_id (butlast w @ [now]) d\<rparr>))
      else (Inr (), rt\<lparr>client_update := AList.update client_id (w @ [now]) d\<rparr>))"

text \<open>
  \<^verbatim>\<open>get_rate\<close>: the index \<^verbatim>\<open>[-1]\<close> is the last element, \<^verbatim>\<open>[0]\<close> the first.
\<close>

definition get_rate :: "int \<Rightarrow> RateTracker \<Rightarrow> (error + real) \<times> RateTracker" where
  "get_rate client_id rt =
     (let (w, d) = getitem (client_update rt) client_id;
          rt' = rt\<lparr>client_update := d\<rparr> in
      if length w < 2 then (Inr 0, rt')
      else if last w - hd w = 0 then (Inl ZeroDivisionError, rt')
      else (Inr (real (length w) / (last w - hd w)), rt'))"

text \<open>The list comprehension over a list of ids: left to right, stopping at the first raise.\<close>

fun get_rates :: "int list \<Rightarrow> RateTracker \<Rightarrow> (error + real list) \<times> RateTracker" where
  "get_rates [] rt = (Inr [], rt)"
| "get_rates (k # ks) rt =
     (case get_rate k rt of
        (Inl e, rt1) \<Rightarrow> (Inl e, rt1)
      | (Inr r, rt1) \<Rightarrow>
          (case get_rates ks rt1 of
             (Inl e, rt2) \<Rightarrow> (Inl e, rt2)
           | (Inr rs, rt2) \<Rightarrow> (Inr (r # rs), rt2)))"

definition get_rate_total :: "RateTracker \<Rightarrow> (error + real) \<times> RateTracker" where
  "get_rate_total rt =
     (case get_rates (map fst (client_update rt)) rt of
        (Inl e, rt1) \<Rightarrow> (Inl e, rt1)
      | (Inr rs, rt1) \<Rightarrow> (Inr (sum_list rs), rt1))"

text \<open>
  A caller that issues tracker operations one after the other; the tracker an operation
  leaves behind is the one the next operation sees, whether or not the operation raised.
\<close>

datatype tracker_op = TrackUpdate int real | GetRate int

fun run_op :: "RateTracker \<Rightarrow> tracker_op \<Rightarrow> RateTracker" where
  "run_op rt (TrackUpdate k now) = snd (track_update k now rt)"
| "run_op rt (GetRate k) = snd (get_rate k rt)"

definition run_ops :: "RateTracker \<Rightarrow> tracker_op list \<Rightarrow> RateTracker" where
  "run_ops rt ops = foldl run_op rt ops"

text \<open>
  The window of a worker after one more report, as \<^verbatim>\<open>track_update\<close> computes it
  (used to state what \<^verbatim>\<open>track_update\<close> does to the observed timestamps).
\<close>

definition window_after_push :: "nat \<Rightarrow> real list \<Rightarrow> real \<Rightarrow> real list" where
  "window_after_push ws w now =
     (if length w \<ge> ws then (if w = [] then [] else butlast w @ [now]) else w @ [now])"

section \<open>The operations of torch\<close>

text \<open>
  The aggregation function uses five operations on tensors: the attribute
  \<^verbatim>\<open>.shape\<close>, the difference \<^verbatim>\<open>t - old_t\<close>, the product \<^verbatim>\<open>w * t\<close> of a number and
  a tensor, \<^verbatim>\<open>torch.sum(torch.stack(ts, 0), 0)\<close> and the sum
  \<^verbatim>\<open>global_param + computed_update\<close>. They belong to torch, not to the program, and are
  taken as they come: a record of functions over a type \<open>'t\<close> of tensors, each of which
  may raise.
\<close>

record 't torch_ops =
  t_shape :: "'t \<Rightarrow> nat list"
  t_sub :: "'t \<Rightarrow> 't \<Rightarrow> error + 't"
  t_mul :: "real \<Rightarrow> 't \<Rightarrow> error + 't"
  t_stack_sum :: "'t list \<Rightarrow> error + 't"
  t_add :: "'t \<Rightarrow> 't \<Rightarrow> error + 't"

section \<open>The aggregation function\<close>

type_synonym 't ModelParams = "(string \<times> 't) list"

text \<open>A client update: client id, old model, new model, version of the old model.\<close>

type_synonym 't ClientUpdate = "int \<times> 't ModelParams \<times> 't ModelParams \<times> int"

definition old_model :: "'t ClientUpdate \<Rightarrow> 't ModelParams" where
  "old_model u = fst (snd u)"

definition new_model :: "'t ClientUpdate \<Rightarrow> 't ModelParams" where
  "new_model u = fst (snd (snd u))"

text \<open>\<^verbatim>\<open>zip(*xss)\<close>: the columns of \<open>xss\<close>, as many as the shortest row has elements.\<close>

fun min_len :: "'a list list \<Rightarrow> nat" where
  "min_len [] = 0"
| "min_len [xs] = length xs"
| "min_len (xs # xss) = min (length xs) (min_len xss)"

definition zip_star :: "'a list list \<Rightarrow> 'a list list" where
  "zip_star xss = map (\<lambda>k. map (\<lambda>xs. xs ! k) xss) [0..<min_len xss]"

text \<open>\<^verbatim>\<open>s in name\<close> on strings.\<close>

fun str_contains :: "string \<Rightarrow> string \<Rightarrow> bool" where
  "str_contains s [] = (s = [])"
| "str_contains s (c # cs) = (prefix s (c # cs) \<or> str_contains s cs)"

text \<open>
  Lines 76 to 85: the rate ratios, the raw weights and the renormalised weights.
  \<^verbatim>\<open>get_rate\<close> is only called when \<^verbatim>\<open>rate_total > 0\<close>; \<^verbatim>\<open>1.0 / num_clients\<close> is
  only evaluated for a positive ratio.
\<close>

definition rate_ratios :: "real \<Rightarrow> int list \<Rightarrow> RateTracker \<Rightarrow> (error + real list) \<times> RateTracker" where
  "rate_ratios rate_total client_ids rt =
     (if rate_total > 0 then
        (case get_rates client_ids rt of
           (Inl e, rt1) \<Rightarrow> (Inl e, rt1)
         | (Inr rs, rt1) \<Rightarrow> (Inr (map (\<lambda>r. r / rate_total) rs), rt1))
      else (Inr (map (\<lambda>_. 0) client_ids), rt))"

definition raw_weight :: "nat \<Rightarrow> real \<Rightarrow> error + real" where
  "raw_weight num_clients ratio =
     (if ratio > 0 then
        (if num_clients = 0 then Inl ZeroDivisionError else Inr (1 / real num_clients))
      else Inr 0)"

definition normalize_weights :: "real list \<Rightarrow> real list" where
  "normalize_weights weights =
     (let weight_total = sum_list weights in
      map (\<lambda>weight. if weight_total > 0 then weight / weight_total else 0) weights)"

text \<open>The result carries the rate ratios, the raw weights and the renormalised weights.\<close>

definition aggregation_weights ::
  "nat \<Rightarrow> int list \<Rightarrow> RateTracker \<Rightarrow> (error + real list \<times> real list \<times> real list) \<times> RateTracker" where
  "aggregation_weights num_clients client_ids rt =
     (case get_rate_total rt of
        (Inl e, rt1) \<Rightarrow> (Inl e, rt1)
      | (Inr rate_total, rt1) \<Rightarrow>
          (case rate_ratios rate_total client_ids rt1 of
             (Inl e, rt2) \<Rightarrow> (Inl e, rt2)
           | (Inr ratios, rt2) \<Rightarrow>
               (case map_raising (raw_weight num_clients) ratios of
                  Inl e \<Rightarrow> (Inl e, rt2)
                | Inr weights \<Rightarrow> (Inr (ratios, weights, normalize_weights weights), rt2))))"

text \<open>
  Lines 88 and 89: one \<^verbatim>\<open>track_update\<close> per update of the batch; the \<open>i\<close>-th call of
  the round reads the clock value \<open>clock i\<close>.
\<close>

fun track_updates :: "int list \<Rightarrow> (nat \<Rightarrow> real) \<Rightarrow> nat \<Rightarrow> RateTracker \<Rightarrow> (error + unit) \<times> RateTracker" where
  "track_updates [] clock i rt = (Inr (), rt)"
| "track_updates (client_id # client_ids) clock i rt =
     (case track_update client_id (clock i) rt of
        (Inl e, rt1) \<Rightarrow> (Inl e, rt1)
      | (Inr _, rt1) \<Rightarrow> track_updates client_ids clock (Suc i) rt1)"

text \<open>
  Lines 101 to 128: the body of the loop over the parameters. The copy
  \<^verbatim>\<open>normalized_update\<close> of \<^verbatim>\<open>raw_updates\<close> is the same list.
\<close>

definition aggregate_param ::
  "'t torch_ops \<Rightarrow> real list \<Rightarrow> (string \<times> 't) list \<times> (string \<times> 't) list \<times> (string \<times> 't)
     \<Rightarrow> error + (string \<times> 't)" where
  "aggregate_param ops weights x =
     (case x of (param_names_and_tensors, old_param_names_and_tensors, (global_param_name, global_param)) \<Rightarrow>
        (case param_names_and_tensors of
           [] \<Rightarrow> Inl IndexError
         | first # _ \<Rightarrow>
             let param_name = fst first in
             if param_name \<noteq> global_param_name then Inl AssertionError
             else if length weights \<noteq> length param_names_and_tensors then Inl AssertionError
             else
               (case map_raising (\<lambda>(t, old_t). t_sub ops t old_t)
                       (zip (map snd param_names_and_tensors) (map snd old_param_names_and_tensors)) of
                  Inl e \<Rightarrow> Inl e
                | Inr raw_updates \<Rightarrow>
                    (case map_raising (\<lambda>(w, t). t_mul ops w t) (zip weights raw_updates) of
                       Inl e \<Rightarrow> Inl e
                     | Inr weighted_updates \<Rightarrow>
                         if t_shape ops (snd first) \<noteq> t_shape ops global_param then Inl AssertionError
                         else
                           (case t_stack_sum ops weighted_updates of
                              Inl e \<Rightarrow> Inl e
                            | Inr computed_update \<Rightarrow>
                                (case t_add ops global_param computed_update of
                                   Inl e \<Rightarrow> Inl e
                                 | Inr new_param \<Rightarrow>
                                     Inr (param_name,
                                          if \<not> str_contains ''bn'' param_name then new_param
                                          else global_param)))))))"

text \<open>Lines 131 to 133: the closing check over \<^verbatim>\<open>zip(global_model, new_global_model)\<close>.\<close>

fun sanity_check :: "'t torch_ops \<Rightarrow> 't ModelParams \<Rightarrow> 't ModelParams \<Rightarrow> error + unit" where
  "sanity_check ops (a # as) (b # bs) =
     (if fst a \<noteq> fst b then Inl AssertionError
      else if t_shape ops (snd a) \<noteq> t_shape ops (snd b) then Inl AssertionError
      else sanity_check ops as bs)"
| "sanity_check ops _ _ = Inr ()"

text \<open>
  \<^verbatim>\<open>aggregation_func\<close>. Unpacking \<^verbatim>\<open>tuple(zip(*client_updates))\<close> into four names
  raises \<open>ValueError\<close> when the batch is empty, since the tuple is then empty.
\<close>

definition aggregation_func ::
  "'t torch_ops \<Rightarrow> nat \<Rightarrow> (nat \<Rightarrow> real) \<Rightarrow> RateTracker \<Rightarrow> 't ModelParams \<times> int
     \<Rightarrow> 't ClientUpdate list \<Rightarrow> (error + 't ModelParams) \<times> RateTracker" where
  "aggregation_func ops num_clients clock rt global_model_and_version client_updates =
     (case global_model_and_version of (global_model, version) \<Rightarrow>
        if client_updates = [] then (Inl ValueError, rt)
        else
          let client_ids = map fst client_updates;
              old_models = map old_model client_updates;
              new_models = map new_model client_updates
          in
          (case aggregation_weights num_clients client_ids rt of
             (Inl e, rt1) \<Rightarrow> (Inl e, rt1)
           | (Inr (ratios, raw, weights), rt1) \<Rightarrow>
               (case track_updates client_ids clock 0 rt1 of
                  (Inl e, rt2) \<Rightarrow> (Inl e, rt2)
                | (Inr _, rt2) \<Rightarrow>
                    (case map_raising (aggregate_param ops weights)
                            (zip (zip_star new_models) (zip (zip_star old_models) global_model)) of
                       Inl e \<Rightarrow> (Inl e, rt2)
                     | Inr new_global_model \<Rightarrow>
                         (case sanity_check ops global_model new_global_model of
                            Inl e \<Rightarrow> (Inl e, rt2)
                          | Inr _ \<Rightarrow> (Inr new_global_model, rt2))))))"

section \<open>Tensors for the examples\<close>

text \<open>
  The concrete rounds below (counterexamples and instances of the theorems) need tensors
  that can be written down: a shape and the elements in row-major order, with the
  operations of torch on operands of one shape and the same number of elements. Only
  such operands occur in those rounds, with elements and results that floats represent
  exactly. Operands of different layouts are refused here although torch broadcasts some
  of them, and there are no infinities and no NaN; the theorems about the aggregation
  function quantify over all operations and do not depend on this instance.
\<close>

datatype tensor = Tensor (shape: "nat list") (data: "real list")

definition same_layout :: "tensor \<Rightarrow> tensor \<Rightarrow> bool" where
  "same_layout a b = (shape a = shape b \<and> length (data a) = length (data b))"

definition example_sub :: "tensor \<Rightarrow> tensor \<Rightarrow> error + tensor" where
  "example_sub a b =
     (if same_layout a b then Inr (Tensor (shape a) (map2 (-) (data a) (data b)))
      else Inl RuntimeError)"

definition example_add :: "tensor \<Rightarrow> tensor \<Rightarrow> error + tensor" where
  "example_add a b =
     (if same_layout a b then Inr (Tensor (shape a) (map2 (+) (data a) (data b)))
      else Inl RuntimeError)"

definition example_mul :: "real \<Rightarrow> tensor \<Rightarrow> error + tensor" where
  "example_mul w t = Inr (Tensor (shape t) (map ((*) w) (data t)))"

fun example_stack_sum :: "tensor list \<Rightarrow> error + tensor" where
  "example_stack_sum [] = Inl RuntimeError"
| "example_stack_sum (t # ts) =
     (if list_all (same_layout t) ts
      then Inr (Tensor (shape t) (foldl (map2 (+)) (data t) (map data ts)))
      else Inl RuntimeError)"

definition example_ops :: "tensor torch_ops" where
  "example_ops =
     \<lparr>t_shape = shape, t_sub = example_sub, t_mul = example_mul,
      t_stack_sum = example_stack_sum, t_add = example_add\<rparr>"

section \<open>The client-runtime parser\<close>

text \<open>
  The part of \<^verbatim>\<open>get_cmd_line_parser\<close> that turns the \<^verbatim>\<open>--client-info\<close> string into
  the list of runtime models (lines 137 to 157 of \<^verbatim>\<open>utils.py\<close>). The builtin
  \<^verbatim>\<open>float\<close> and the constructors of \<^verbatim>\<open>afl_bench.agents.runtime_model\<close>, which are not
  part of the embedded files, are parameters.
\<close>

datatype runtime_class = InstantRuntime | GaussianRuntime

definition CLIENT_TYPE_TO_MODEL :: "char \<Rightarrow> runtime_class option" where
  "CLIENT_TYPE_TO_MODEL c =
     (if c = CHR ''i'' then Some InstantRuntime
      else if c = CHR ''g'' then Some GaussianRuntime
      else None)"

definition is_digit :: "char \<Rightarrow> bool" where
  "is_digit c = (c \<in> set ''0123456789'')"

definition int_of_digits :: "string \<Rightarrow> nat" where
  "int_of_digits ds = foldl (\<lambda>n c. 10 * n + (of_char c - 48)) 0 ds"

text \<open>
  \<^verbatim>\<open>re.search(r"\[(\d+)\]", s)\<close> followed by \<^verbatim>\<open>int(match.group(1))\<close>: the leftmost
  opening bracket that is followed by one or more digits and a closing bracket.
\<close>

fun search_count :: "string \<Rightarrow> nat option" where
  "search_count [] = None"
| "search_count (c # cs) =
     (if c = CHR ''['' \<and> takeWhile is_digit cs \<noteq> [] \<and>
         take 1 (dropWhile is_digit cs) = '']''
      then Some (int_of_digits (takeWhile is_digit cs))
      else search_count cs)"

text \<open>\<^verbatim>\<open>s.index(c)\<close>; \<open>None\<close> stands for the \<open>ValueError\<close> of a missing character.\<close>

fun str_index :: "char \<Rightarrow> string \<Rightarrow> nat option" where
  "str_index c [] = None"
| "str_index c (x # xs) =
     (if x = c then Some 0 else (case str_index c xs of None \<Rightarrow> None | Some i \<Rightarrow> Some (Suc i)))"

text \<open>\<^verbatim>\<open>s.split(sep)\<close> for a one-character separator.\<close>

fun str_split :: "char \<Rightarrow> string \<Rightarrow> string list" where
  "str_split sep [] = [[]]"
| "str_split sep (c # cs) =
     (if c = sep then [] # str_split sep cs
      else (case str_split sep cs of [] \<Rightarrow> [[c]] | w # ws \<Rightarrow> (c # w) # ws))"

text \<open>The body of the loop over \<^verbatim>\<open>raw_clients\<close>: the runtime models of one token.\<close>

definition parse_raw_client ::
  "(string \<Rightarrow> 'f option) \<Rightarrow> (runtime_class \<Rightarrow> 'f list \<Rightarrow> error + 'r) \<Rightarrow> string \<Rightarrow> error + 'r list" where
  "parse_raw_client float_of make_runtime raw_client =
     (let num_of_type = (case search_count raw_client of Some n \<Rightarrow> n | None \<Rightarrow> 1) in
      case raw_client of
        [] \<Rightarrow> Inl IndexError
      | c # _ \<Rightarrow>
          (case CLIENT_TYPE_TO_MODEL c of
             None \<Rightarrow> Inl KeyError
           | Some client_runtime_constructor \<Rightarrow>
               (case str_index CHR ''['' raw_client of
                  None \<Rightarrow> Inl ValueError
                | Some i \<Rightarrow>
                    (case map_raising
                            (\<lambda>x. case float_of x of None \<Rightarrow> Inl ValueError | Some f \<Rightarrow> Inr f)
                            (str_split CHR ''/'' (take (i - 1) (drop 1 raw_client))) of
                       Inl e \<Rightarrow> Inl e
                     | Inr client_params \<Rightarrow>
                         map_raising (\<lambda>_. make_runtime client_runtime_constructor client_params)
                           (replicate num_of_type ())))))"

definition client_runtimes ::
  "(string \<Rightarrow> 'f option) \<Rightarrow> (runtime_class \<Rightarrow> 'f list \<Rightarrow> error + 'r) \<Rightarrow> string \<Rightarrow> error + 'r list" where
  "client_runtimes float_of make_runtime client_info =
     (case map_raising (parse_raw_client float_of make_runtime) (str_split CHR '','' client_info) of
        Inl e \<Rightarrow> Inl e
      | Inr groups \<Rightarrow> Inr (concat groups))"

section \<open>Properties of the RateTracker\<close>

text \<open>
  C1. The claim says that a full window loses its oldest timestamp when a new report is
  tracked. The code calls \<^verbatim>\<open>pop()\<close>, which removes the newest one: with a window of
  capacity 5 holding 1, 2, 3, 4, 5, tracking a report at time 6 leaves 1, 2, 3, 4, 6 and not
  2, 3, 4, 5, 6.
\<close>

theorem track_update_full_window_pops_newest:
  "track_update 7 6 \<lparr>window_size = 5, client_update = [(7, [1, 2, 3, 4, 5])]\<rparr>
     = (Inr (), \<lparr>window_size = 5, client_update = [(7, [1, 2, 3, 4, 6])]\<rparr>)"
  by (simp add: track_update_def getitem_def)

lemma timestamps_getitem:
  "timestamps (rt\<lparr>client_update := snd (getitem (client_update rt) k)\<rparr>) k' = timestamps rt k'"
  by (auto simp: timestamps_def getitem_def map_add_def split: option.splits)

lemma fst_getitem: "fst (getitem (client_update rt) k) = timestamps rt k"
  by (simp add: timestamps_def getitem_def split: option.splits)

lemma map_of_snd_getitem:
  "map_of (snd (getitem d k)) k' = (if k' = k \<and> map_of d k = None then Some [] else map_of d k')"
  by (auto simp: getitem_def map_add_def split: option.splits)

lemma timestamps_track_update:
  "timestamps (snd (track_update k now rt)) k' =
     (if k' = k then window_after_push (window_size rt) (timestamps rt k) now else timestamps rt k')"
  by (auto simp: track_update_def timestamps_def window_after_push_def update_conv' map_of_snd_getitem
        getitem_def split: prod.splits option.splits)

lemma window_size_track_update: "window_size (snd (track_update k now rt)) = window_size rt"
  by (simp add: track_update_def split: prod.splits)

lemma snd_get_rate: "snd (get_rate k rt) = rt\<lparr>client_update := snd (getitem (client_update rt) k)\<rparr>"
  by (simp add: get_rate_def Let_def split: prod.splits)

lemma timestamps_get_rate: "timestamps (snd (get_rate k rt)) k' = timestamps rt k'"
  by (simp only: snd_get_rate timestamps_getitem)

lemma window_size_get_rate: "window_size (snd (get_rate k rt)) = window_size rt"
  by (simp add: get_rate_def Let_def split: prod.splits)

lemma fst_get_rate:
  "fst (get_rate k rt) =
     (let w = timestamps rt k in
      if length w < 2 then Inr 0
      else if last w = hd w then Inl ZeroDivisionError
      else Inr (real (length w) / (last w - hd w)))"
  by (auto simp: get_rate_def Let_def timestamps_def getitem_def split: prod.splits option.splits)

lemma length_window_after_push: "length (window_after_push ws w now) \<le> max ws (length w)"
  by (auto simp: window_after_push_def)

lemma run_op_window_size: "window_size (run_op rt op) = window_size rt"
  by (cases op) (simp_all add: window_size_track_update window_size_get_rate)

lemma run_op_bounded:
  assumes "\<forall>k. length (timestamps rt k) \<le> window_size rt"
  shows "\<forall>k. length (timestamps (run_op rt op) k) \<le> window_size (run_op rt op)"
proof (cases op)
  case (TrackUpdate c now)
  show ?thesis
  proof
    fix k
    have "length (window_after_push (window_size rt) (timestamps rt c) now) \<le> window_size rt"
      using assms length_window_after_push [of "window_size rt" "timestamps rt c" now]
      by (simp add: max_def split: if_splits) (metis le_trans)
    then show "length (timestamps (run_op rt op) k) \<le> window_size (run_op rt op)"
      using assms TrackUpdate by (simp add: timestamps_track_update window_size_track_update)
  qed
next
  case (GetRate c)
  then show ?thesis using assms by (simp add: timestamps_get_rate window_size_get_rate)
qed

lemma run_ops_bounded:
  "\<forall>k. length (timestamps rt k) \<le> window_size rt \<Longrightarrow>
   \<forall>k. length (timestamps (run_ops rt ops) k) \<le> window_size (run_ops rt ops)"
  unfolding run_ops_def
  by (induction ops arbitrary: rt) (simp_all add: run_op_bounded)

lemma run_ops_window_size: "window_size (run_ops rt ops) = window_size rt"
  unfolding run_ops_def
  by (induction ops arbitrary: rt) (simp_all add: run_op_window_size)

text \<open>
  C9. Starting from a fresh tracker, after any sequence of \<^verbatim>\<open>track_update\<close> and
  \<^verbatim>\<open>get_rate\<close> calls (whatever the clock reads, and whether or not a call raised), no
  worker has more than \<open>window_size\<close> timestamps.
\<close>

theorem window_never_exceeds_window_size:
  "length (timestamps (run_ops (RateTracker_init ws) ops) k) \<le> ws"
proof -
  have "\<forall>k. length (timestamps (RateTracker_init ws) k) \<le> window_size (RateTracker_init ws)"
    by (simp add: timestamps_def RateTracker_init_def)
  from run_ops_bounded [OF this, of ops]
  show ?thesis by (simp add: run_ops_window_size) (simp add: RateTracker_init_def)
qed

text \<open>
  C7. The claim says that with two or more timestamps \<^verbatim>\<open>get_rate\<close> returns the count
  divided by the difference of the newest and the oldest timestamp. With the window 1, 1
  the difference is zero and the call raises instead of returning.
\<close>

theorem get_rate_counterexample:
  "fst (get_rate 7 \<lparr>window_size = 5, client_update = [(7, [1, 1])]\<rparr>) = Inl ZeroDivisionError"
  by (simp add: get_rate_def getitem_def)

text \<open>
  C7, as the code has it: \<^verbatim>\<open>get_rate\<close> returns 0.0 when fewer than two timestamps are
  recorded for the worker; when at least two are recorded and the last differs from the
  first, it returns their count divided by (last - first); for the window 0, 1, 2 it
  returns 1.5.
\<close>

theorem get_rate_formula:
  "(length (timestamps rt k) < 2 \<longrightarrow> fst (get_rate k rt) = Inr 0) \<and>
   (2 \<le> length (timestamps rt k) \<and> last (timestamps rt k) \<noteq> hd (timestamps rt k) \<longrightarrow>
      fst (get_rate k rt) =
        Inr (real (length (timestamps rt k)) / (last (timestamps rt k) - hd (timestamps rt k)))) \<and>
   fst (get_rate k \<lparr>window_size = 5, client_update = [(k, [0, 1, 2])]\<rparr>) = Inr (3 / 2)"
  by (simp add: fst_get_rate Let_def) (simp add: timestamps_def)

theorem get_rate_formula_witness:
  "fst (get_rate 7 \<lparr>window_size = 5, client_update = [(7, [4])]\<rparr>) = Inr 0 \<and>
   fst (get_rate 7 \<lparr>window_size = 5, client_update = [(7, [2, 4, 7, 8])]\<rparr>) = Inr (2 / 3)"
  using get_rate_formula [of "\<lparr>window_size = 5, client_update = [(7, [4])]\<rparr>" 7]
        get_rate_formula [of "\<lparr>window_size = 5, client_update = [(7, [2, 4, 7, 8])]\<rparr>" 7]
  by (simp add: timestamps_def)

text \<open>
  C10. The division in \<^verbatim>\<open>get_rate\<close> is unguarded: whenever the window of a worker holds
  two or more timestamps that are all equal, \<^verbatim>\<open>get_rate\<close> raises
  \<open>ZeroDivisionError\<close>. The branch is reached through the public operations alone: on a
  fresh tracker of capacity at least 2, two \<^verbatim>\<open>track_update\<close> calls for one worker that
  read the same clock value are enough.
\<close>

theorem get_rate_equal_timestamps_raises:
  "(2 \<le> length (timestamps rt k) \<and> (\<forall>t \<in> set (timestamps rt k). t = c) \<longrightarrow>
      fst (get_rate k rt) = Inl ZeroDivisionError) \<and>
   (2 \<le> ws \<longrightarrow>
      fst (get_rate k (run_ops (RateTracker_init ws) [TrackUpdate k now, TrackUpdate k now]))
        = Inl ZeroDivisionError)"
proof (intro conjI impI)
  assume a: "2 \<le> length (timestamps rt k) \<and> (\<forall>t \<in> set (timestamps rt k). t = c)"
  then have ne: "timestamps rt k \<noteq> []" by auto
  then have "last (timestamps rt k) = c" "hd (timestamps rt k) = c"
    using a last_in_set hd_in_set by blast+
  then show "fst (get_rate k rt) = Inl ZeroDivisionError"
    using a by (simp add: fst_get_rate Let_def)
next
  assume ws: "2 \<le> ws"
  have "timestamps (run_ops (RateTracker_init ws) [TrackUpdate k now, TrackUpdate k now]) k
          = [now, now]"
    using ws
    by (simp add: run_ops_def timestamps_track_update window_size_track_update
          window_after_push_def)
       (simp add: RateTracker_init_def timestamps_def)
  then show "fst (get_rate k (run_ops (RateTracker_init ws) [TrackUpdate k now, TrackUpdate k now]))
        = Inl ZeroDivisionError"
    by (simp add: fst_get_rate)
qed

theorem get_rate_equal_timestamps_raises_witness:
  "fst (get_rate 7 \<lparr>window_size = 5, client_update = [(7, [3, 3, 3])]\<rparr>) = Inl ZeroDivisionError \<and>
   fst (get_rate 7 (run_ops (RateTracker_init 5) [TrackUpdate 7 3, TrackUpdate 7 3]))
        = Inl ZeroDivisionError"
  using get_rate_equal_timestamps_raises
          [of "\<lparr>window_size = 5, client_update = [(7, [3, 3, 3])]\<rparr>" 7 3 5 3]
  by (simp add: timestamps_def)

section \<open>Properties of the aggregation function\<close>

lemmas tracker_eval = RateTracker_init_def get_rate_total_def get_rate_def track_update_def getitem_def

lemmas aggregation_eval =
  aggregation_func_def aggregation_weights_def rate_ratios_def raw_weight_def
  normalize_weights_def zip_star_def aggregate_param_def new_model_def old_model_def

lemmas example_eval =
  example_ops_def example_sub_def example_add_def example_mul_def same_layout_def

lemma map_raising_Inr:
  "map_raising f xs = Inr ys \<Longrightarrow> length ys = length xs \<and> (\<forall>k < length xs. f (xs ! k) = Inr (ys ! k))"
proof (induction xs arbitrary: ys)
  case Nil
  then show ?case by simp
next
  case (Cons x xs)
  from Cons.prems obtain y ys' where fx: "f x = Inr y" and rest: "map_raising f xs = Inr ys'"
    and ys: "ys = y # ys'"
    by (auto split: sum.splits)
  from Cons.IH [OF rest] have len: "length ys' = length xs"
    and nth: "\<forall>k < length xs. f (xs ! k) = Inr (ys' ! k)" by simp_all
  show ?case
  proof (intro conjI allI impI)
    show "length ys = length (x # xs)" using len ys by simp
  next
    fix k assume "k < length (x # xs)"
    then show "f ((x # xs) ! k) = Inr (ys ! k)"
      using fx nth ys by (cases k) simp_all
  qed
qed

text \<open>
  C3. The claim says that an empty batch is a round that returns the global state
  unchanged. The unpacking on lines 71 to 73 raises on an empty batch, so nothing is
  returned.
\<close>

theorem aggregation_func_empty_batch_counterexample:
  "fst (aggregation_func example_ops 2 real (RateTracker_init 5) ([(''w'', Tensor [1] [1])], 0) [])
     = Inl ValueError"
  by (simp add: aggregation_func_def)

text \<open>
  C3, as the code has it: for every global state, tracker and clock, calling the
  aggregation function with an empty batch raises \<open>ValueError\<close>, and the tracker is
  left as it was.
\<close>

theorem aggregation_func_empty_batch_raises:
  "aggregation_func ops num_clients clock rt (global_model, version) [] = (Inl ValueError, rt)"
  by (simp add: aggregation_func_def)

lemma raw_weights_Inr:
  "map_raising (raw_weight n) ratios = Inr raw \<Longrightarrow>
   raw = map (\<lambda>ratio. if ratio > 0 then 1 / real n else 0) ratios"
proof (induction ratios arbitrary: raw)
  case Nil
  then show ?case by simp
next
  case (Cons r rs)
  then show ?case
    by (auto simp: raw_weight_def split: sum.splits if_splits)
qed

lemma sum_list_normalize_weights:
  assumes "sum_list weights > 0"
  shows "sum_list (normalize_weights weights) = 1"
proof -
  have "sum_list (map (\<lambda>w. w / T) ws) = sum_list ws / T" for T :: real and ws
    by (induction ws) (simp_all add: add_divide_distrib)
  then show ?thesis using assms by (simp add: normalize_weights_def Let_def)
qed

lemma length_get_rates: "get_rates ids rt = (Inr rs, rt') \<Longrightarrow> length rs = length ids"
  by (induction ids arbitrary: rt rs rt') (auto split: prod.splits sum.splits)

text \<open>
  C5. When the weights of a round are computed, there is one rate ratio per update, the
  raw weight of an update is \<open>1 / num_clients\<close> if its rate ratio is strictly positive
  and 0 otherwise, the final weights are the raw weights divided by their total (0 when
  the total is not positive), and when the total of the raw weights is strictly positive
  the final weights sum to 1, hence to 1 within any tolerance. (Floats are idealised as
  reals, so the sum is exact.)
\<close>

theorem weights_equal_share_and_sum_to_one:
  assumes "aggregation_weights num_clients client_ids rt = (Inr (ratios, raw, weights), rt')"
  shows "length ratios = length client_ids \<and>
         raw = map (\<lambda>ratio. if ratio > 0 then 1 / real num_clients else 0) ratios \<and>
         weights = (let weight_total = sum_list raw in map (\<lambda>w. if weight_total > 0 then w / weight_total else 0) raw) \<and>
         (sum_list raw > 0 \<longrightarrow> sum_list weights = 1 \<and> \<bar>sum_list weights - 1\<bar> \<le> 1 / 10 ^ 6)"
proof -
  from assms obtain rate_total rt1 where
    rr: "rate_ratios rate_total client_ids rt1 = (Inr ratios, rt')" and
    raw: "map_raising (raw_weight num_clients) ratios = Inr raw" and
    w: "weights = normalize_weights raw"
    by (auto simp: aggregation_weights_def split: prod.splits sum.splits)
  have len: "length ratios = length client_ids"
    using rr by (auto simp: rate_ratios_def split: if_splits prod.splits sum.splits dest: length_get_rates)
  have "sum_list raw > 0 \<Longrightarrow> sum_list weights = 1"
    using w sum_list_normalize_weights by simp
  then show ?thesis
    using len raw_weights_Inr [OF raw] w by (auto simp: normalize_weights_def)
qed

theorem weights_equal_share_and_sum_to_one_witness:
  "aggregation_weights 3 [1, 2, 3]
       \<lparr>window_size = 5, client_update = [(1, [0, 1, 2]), (2, [0, 4]), (3, [7])]\<rparr>
     = (Inr ([3 / 4, 1 / 4, 0], [1 / 3, 1 / 3, 0], [1 / 2, 1 / 2, 0]),
        \<lparr>window_size = 5, client_update = [(1, [0, 1, 2]), (2, [0, 4]), (3, [7])]\<rparr>) \<and>
   sum_list [1 / 2, 1 / 2, 0 :: real] = 1"
proof -
  have h: "aggregation_weights 3 [1, 2, 3]
       \<lparr>window_size = 5, client_update = [(1, [0, 1, 2]), (2, [0, 4]), (3, [7])]\<rparr>
     = (Inr ([3 / 4, 1 / 4, 0], [1 / 3, 1 / 3, 0], [1 / 2, 1 / 2, 0]),
        \<lparr>window_size = 5, client_update = [(1, [0, 1, 2]), (2, [0, 4]), (3, [7])]\<rparr>)"
    by (simp add: tracker_eval aggregation_eval)
  from weights_equal_share_and_sum_to_one [OF h] h show ?thesis by simp
qed

lemma length_zip_star: "length (zip_star xss) = min_len xss"
  by (simp add: zip_star_def)

lemma nth_zip_star: "k < min_len xss \<Longrightarrow> zip_star xss ! k = map (\<lambda>xs. xs ! k) xss"
  by (simp add: zip_star_def)

lemma min_len_le: "xs \<in> set xss \<Longrightarrow> min_len xss \<le> length xs"
  by (induction xss rule: min_len.induct) auto

lemma min_len_ge: "xss \<noteq> [] \<Longrightarrow> \<forall>xs \<in> set xss. n \<le> length xs \<Longrightarrow> n \<le> min_len xss"
  by (induction xss rule: min_len.induct) auto

lemma aggregation_func_Inr:
  assumes "aggregation_func ops num_clients clock rt (global_model, version) client_updates = (Inr out, rt')"
  shows "client_updates \<noteq> [] \<and>
         (\<exists>ratios raw weights rt1.
            aggregation_weights num_clients (map fst client_updates) rt = (Inr (ratios, raw, weights), rt1) \<and>
            map_raising (aggregate_param ops weights)
              (zip (zip_star (map new_model client_updates))
                 (zip (zip_star (map old_model client_updates)) global_model)) = Inr out)"
  using assms
  by (auto simp: aggregation_func_def Let_def split: if_splits prod.splits sum.splits)

lemma map_raising_zip_Inr:
  assumes "map_raising (\<lambda>(a, b). f a b) (zip xs ys) = Inr zs" and "length ys = length xs"
  shows "length zs = length xs \<and> (\<forall>i < length xs. f (xs ! i) (ys ! i) = Inr (zs ! i))"
  using map_raising_Inr [OF assms(1)] assms(2) by simp

lemma aggregate_param_cases:
  assumes "aggregate_param ops weights (news, olds, (gname, g)) = Inr (name, val)"
  shows "news \<noteq> [] \<and> name = gname \<and> fst (hd news) = gname \<and> length weights = length news \<and>
         t_shape ops (snd (hd news)) = t_shape ops g \<and>
         (\<exists>deltas weighted computed new_param.
            map_raising (\<lambda>(t, old_t). t_sub ops t old_t) (zip (map snd news) (map snd olds)) = Inr deltas \<and>
            map_raising (\<lambda>(w, t). t_mul ops w t) (zip weights deltas) = Inr weighted \<and>
            t_stack_sum ops weighted = Inr computed \<and>
            t_add ops g computed = Inr new_param \<and>
            val = (if \<not> str_contains ''bn'' gname then new_param else g))"
proof (cases news)
  case Nil
  with assms show ?thesis by (simp add: aggregate_param_def)
next
  case (Cons first rest)
  from assms have nm: "fst first = gname" and lw: "length weights = length news"
    unfolding aggregate_param_def Cons by (simp_all add: Let_def split: if_splits)
  from assms nm lw obtain deltas where
    sub: "map_raising (\<lambda>(t, old_t). t_sub ops t old_t) (zip (map snd news) (map snd olds)) = Inr deltas"
    unfolding aggregate_param_def Cons by (cases "map_raising (\<lambda>(t, old_t). t_sub ops t old_t) (zip (map snd (first # rest)) (map snd olds))") (simp_all add: Let_def)
  from assms nm lw sub obtain weighted where
    mul: "map_raising (\<lambda>(w, t). t_mul ops w t) (zip weights deltas) = Inr weighted"
    unfolding aggregate_param_def Cons
    by (cases "map_raising (\<lambda>(w, t). t_mul ops w t) (zip weights deltas)") (simp_all add: Let_def)
  from assms nm lw sub mul have sh: "t_shape ops (snd first) = t_shape ops g"
    unfolding aggregate_param_def Cons by (simp add: Let_def split: if_splits)
  from assms nm lw sub mul sh obtain computed where
    st: "t_stack_sum ops weighted = Inr computed"
    unfolding aggregate_param_def Cons
    by (cases "t_stack_sum ops weighted") (simp_all add: Let_def)
  from assms nm lw sub mul sh st obtain new_param where
    ad: "t_add ops g computed = Inr new_param"
    unfolding aggregate_param_def Cons
    by (cases "t_add ops g computed") (simp_all add: Let_def)
  from assms nm lw sub mul sh st ad
  have val: "name = gname \<and> val = (if \<not> str_contains ''bn'' gname then new_param else g)"
    unfolding aggregate_param_def Cons by (auto simp: Let_def)
  show ?thesis using Cons nm lw sub mul sh st ad val by auto
qed

lemma aggregate_param_Inr:
  assumes ap: "aggregate_param ops weights (news, olds, (gname, g)) = Inr (name, val)"
    and len: "length olds = length news"
  shows "news \<noteq> [] \<and> name = gname \<and> fst (hd news) = gname \<and> length weights = length news \<and>
         t_shape ops (snd (hd news)) = t_shape ops g \<and>
         (str_contains ''bn'' gname \<longrightarrow> val = g) \<and>
         (\<not> str_contains ''bn'' gname \<longrightarrow>
            (\<exists>deltas weighted computed.
               length deltas = length news \<and> length weighted = length news \<and>
               (\<forall>i < length news.
                  t_sub ops (snd (news ! i)) (snd (olds ! i)) = Inr (deltas ! i) \<and>
                  t_mul ops (weights ! i) (deltas ! i) = Inr (weighted ! i)) \<and>
               t_stack_sum ops weighted = Inr computed \<and>
               t_add ops g computed = Inr val))"
proof -
  note c = aggregate_param_cases [OF ap]
  from c have ne: "news \<noteq> []" and nm: "fst (hd news) = gname" and name: "name = gname"
    and lw: "length weights = length news"
    and sh: "t_shape ops (snd (hd news)) = t_shape ops g"
    by simp_all
  from c obtain deltas weighted computed new_param where
    sub: "map_raising (\<lambda>(t, old_t). t_sub ops t old_t) (zip (map snd news) (map snd olds)) = Inr deltas"
    and mul: "map_raising (\<lambda>(w, t). t_mul ops w t) (zip weights deltas) = Inr weighted"
    and st: "t_stack_sum ops weighted = Inr computed"
    and ad: "t_add ops g computed = Inr new_param"
    and val: "val = (if \<not> str_contains ''bn'' gname then new_param else g)"
    by blast
  have l1: "length (map snd olds) = length (map snd news)" using len by simp
  from map_raising_zip_Inr [OF sub l1] have ld: "length deltas = length news"
    and d: "\<forall>i < length news. t_sub ops (snd (news ! i)) (snd (olds ! i)) = Inr (deltas ! i)"
    using len by simp_all
  have l2: "length deltas = length weights" using ld lw by simp
  from map_raising_zip_Inr [OF mul l2] have lwd: "length weighted = length news"
    and m: "\<forall>i < length news. t_mul ops (weights ! i) (deltas ! i) = Inr (weighted ! i)"
    using lw by simp_all
  have "\<exists>deltas weighted computed.
               length deltas = length news \<and> length weighted = length news \<and>
               (\<forall>i < length news.
                  t_sub ops (snd (news ! i)) (snd (olds ! i)) = Inr (deltas ! i) \<and>
                  t_mul ops (weights ! i) (deltas ! i) = Inr (weighted ! i)) \<and>
               t_stack_sum ops weighted = Inr computed \<and>
               t_add ops g computed = Inr val"
    if "\<not> str_contains ''bn'' gname"
    using that ld lwd d m st ad val by auto
  then show ?thesis using ne nm name lw sh val by auto
qed

lemma aggregation_func_nth:
  assumes ok: "aggregation_func ops num_clients clock rt (global_model, version) client_updates = (Inr out, rt')"
  shows "client_updates \<noteq> [] \<and>
         length out = min (min_len (map new_model client_updates))
                        (min (min_len (map old_model client_updates)) (length global_model)) \<and>
         (\<exists>ratios raw weights rt1.
            aggregation_weights num_clients (map fst client_updates) rt = (Inr (ratios, raw, weights), rt1) \<and>
            (\<forall>k < length out.
               aggregate_param ops weights
                 (map (\<lambda>u. new_model u ! k) client_updates,
                  map (\<lambda>u. old_model u ! k) client_updates,
                  global_model ! k) = Inr (out ! k)))"
proof -
  let ?triples = "zip (zip_star (map new_model client_updates))
                    (zip (zip_star (map old_model client_updates)) global_model)"
  from aggregation_func_Inr [OF ok] obtain ratios raw weights rt1 where
    ne: "client_updates \<noteq> []" and
    w: "aggregation_weights num_clients (map fst client_updates) rt = (Inr (ratios, raw, weights), rt1)" and
    m: "map_raising (aggregate_param ops weights) ?triples = Inr out"
    by blast
  from map_raising_Inr [OF m] have len: "length out = length ?triples"
    and nth: "\<forall>k < length ?triples. aggregate_param ops weights (?triples ! k) = Inr (out ! k)"
    by simp_all
  have len': "length out = min (min_len (map new_model client_updates))
                        (min (min_len (map old_model client_updates)) (length global_model))"
    using len by (simp add: length_zip_star)
  have "aggregate_param ops weights
                 (map (\<lambda>u. new_model u ! k) client_updates,
                  map (\<lambda>u. old_model u ! k) client_updates,
                  global_model ! k) = Inr (out ! k)" if "k < length out" for k
  proof -
    from that len' have k: "k < min_len (map new_model client_updates)"
      "k < min_len (map old_model client_updates)" "k < length global_model" by simp_all
    then have eq: "?triples ! k = (map (\<lambda>u. new_model u ! k) client_updates,
                  map (\<lambda>u. old_model u ! k) client_updates,
                  global_model ! k)"
      by (simp add: length_zip_star nth_zip_star o_def)
    from that len have "k < length ?triples" by simp
    with nth have "aggregate_param ops weights (?triples ! k) = Inr (out ! k)" by blast
    then show ?thesis by (simp only: eq)
  qed
  then show ?thesis using ne w len' by blast
qed

text \<open>
  C2. The claim says that a name that differs from the global one in any update makes
  the function fail. Only the new model of the first update is compared: here the second
  update carries other names in its old and in its new model, and the function returns a
  merged model.
\<close>

theorem unchecked_update_names_counterexample:
  "fst (aggregation_func example_ops 2 real \<lparr>window_size = 5, client_update = [(1, [0, 1]), (2, [0, 1])]\<rparr>
          ([(''w'', Tensor [1] [1])], 0)
          [(1, [(''w'', Tensor [1] [1])], [(''w'', Tensor [1] [2])], 0),
           (2, [(''x'', Tensor [1] [1])], [(''y'', Tensor [1] [3])], 0)])
     = Inr [(''w'', Tensor [1] [5 / 2])]"
  by (simp add: tracker_eval aggregation_eval example_eval)

text \<open>
  C2, as the code has it: for every position \<open>k\<close> that the global state and the old
  and new models of every update of a non-empty batch have, if the name at \<open>k\<close> in the
  new model of the FIRST update differs from the global name at \<open>k\<close>, or the shape of
  its tensor differs from the shape of the global tensor, the function raises.
\<close>

theorem first_update_mismatch_raises:
  assumes ne: "client_updates \<noteq> []"
    and kg: "k < length global_model"
    and ku: "\<forall>u \<in> set client_updates. k < length (old_model u) \<and> k < length (new_model u)"
    and bad: "fst (new_model (hd client_updates) ! k) \<noteq> fst (global_model ! k) \<or>
              t_shape ops (snd (new_model (hd client_updates) ! k))
                \<noteq> t_shape ops (snd (global_model ! k))"
  shows "\<exists>e. fst (aggregation_func ops num_clients clock rt (global_model, version) client_updates) = Inl e"
proof (rule ccontr)
  assume "\<not> ?thesis"
  then obtain out where
    "fst (aggregation_func ops num_clients clock rt (global_model, version) client_updates) = Inr out"
    by (metis sum.exhaust)
  then obtain rt' where
    ok: "aggregation_func ops num_clients clock rt (global_model, version) client_updates = (Inr out, rt')"
    by (metis prod.collapse)
  from aggregation_func_nth [OF ok] obtain weights where
    len: "length out = min (min_len (map new_model client_updates))
                        (min (min_len (map old_model client_updates)) (length global_model))" and
    nth: "\<forall>k < length out.
               aggregate_param ops weights
                 (map (\<lambda>u. new_model u ! k) client_updates,
                  map (\<lambda>u. old_model u ! k) client_updates,
                  global_model ! k) = Inr (out ! k)"
    by blast
  have "Suc k \<le> min_len (map new_model client_updates)"
    using ne ku by (intro min_len_ge) auto
  moreover have "Suc k \<le> min_len (map old_model client_updates)"
    using ne ku by (intro min_len_ge) auto
  ultimately have "k < length out" using len kg by simp
  with nth have "aggregate_param ops weights
                 (map (\<lambda>u. new_model u ! k) client_updates,
                  map (\<lambda>u. old_model u ! k) client_updates,
                  fst (global_model ! k), snd (global_model ! k)) = Inr (fst (out ! k), snd (out ! k))"
    by simp
  from aggregate_param_Inr [OF this]
  have "fst (hd (map (\<lambda>u. new_model u ! k) client_updates)) = fst (global_model ! k)"
    and "t_shape ops (snd (hd (map (\<lambda>u. new_model u ! k) client_updates)))
           = t_shape ops (snd (global_model ! k))"
    by simp_all
  then show False using bad ne by (simp add: hd_map)
qed

theorem first_update_mismatch_raises_witness:
  "\<exists>e. fst (aggregation_func example_ops 2 real (RateTracker_init 5)
          ([(''w'', Tensor [1] [1])], 0)
          [(1, [(''v'', Tensor [1] [1])], [(''v'', Tensor [1] [2])], 0)]) = Inl e"
  using first_update_mismatch_raises
          [of "[(1, [(''v'', Tensor [1] [1])], [(''v'', Tensor [1] [2])], 0)]" 0
              "[(''w'', Tensor [1] [1])]" example_ops 2 real "RateTracker_init 5" 0]
  by (simp add: new_model_def old_model_def)

lemma aggregation_func_params:
  assumes ok: "aggregation_func ops num_clients clock rt (global_model, version) client_updates = (Inr out, rt')"
    and w: "aggregation_weights num_clients (map fst client_updates) rt = (Inr (ratios, raw, weights), rt1)"
  shows "length out = min (min_len (map new_model client_updates))
                        (min (min_len (map old_model client_updates)) (length global_model)) \<and>
         (\<forall>k < length out.
            fst (out ! k) = fst (global_model ! k) \<and>
            (str_contains ''bn'' (fst (global_model ! k)) \<longrightarrow> snd (out ! k) = snd (global_model ! k)) \<and>
            (\<not> str_contains ''bn'' (fst (global_model ! k)) \<longrightarrow>
               (\<exists>deltas weighted computed.
                  length deltas = length client_updates \<and> length weighted = length client_updates \<and>
                  (\<forall>i < length client_updates.
                     t_sub ops (snd (new_model (client_updates ! i) ! k))
                               (snd (old_model (client_updates ! i) ! k)) = Inr (deltas ! i) \<and>
                     t_mul ops (weights ! i) (deltas ! i) = Inr (weighted ! i)) \<and>
                  t_stack_sum ops weighted = Inr computed \<and>
                  t_add ops (snd (global_model ! k)) computed = Inr (snd (out ! k)))))"
proof (intro conjI allI impI)
  note nth = aggregation_func_nth [OF ok]
  from nth show "length out = min (min_len (map new_model client_updates))
                        (min (min_len (map old_model client_updates)) (length global_model))"
    by blast
  fix k assume k: "k < length out"
  let ?news = "map (\<lambda>u. new_model u ! k) client_updates"
  let ?olds = "map (\<lambda>u. old_model u ! k) client_updates"
  from nth w k have "aggregate_param ops weights (?news, ?olds, global_model ! k) = Inr (out ! k)"
    by auto
  then have ap: "aggregate_param ops weights (?news, ?olds, fst (global_model ! k), snd (global_model ! k))
                   = Inr (fst (out ! k), snd (out ! k))"
    by simp
  have len: "length ?olds = length ?news" by simp
  note facts = aggregate_param_Inr [OF ap len]
  from facts show "fst (out ! k) = fst (global_model ! k)" by simp
  from facts show "snd (out ! k) = snd (global_model ! k)"
    if "str_contains ''bn'' (fst (global_model ! k))" using that by simp
  show "\<exists>deltas weighted computed.
                  length deltas = length client_updates \<and> length weighted = length client_updates \<and>
                  (\<forall>i < length client_updates.
                     t_sub ops (snd (new_model (client_updates ! i) ! k))
                               (snd (old_model (client_updates ! i) ! k)) = Inr (deltas ! i) \<and>
                     t_mul ops (weights ! i) (deltas ! i) = Inr (weighted ! i)) \<and>
                  t_stack_sum ops weighted = Inr computed \<and>
                  t_add ops (snd (global_model ! k)) computed = Inr (snd (out ! k))"
    if nbn: "\<not> str_contains ''bn'' (fst (global_model ! k))"
  proof -
    from facts nbn obtain deltas weighted computed where
      ld: "length deltas = length ?news" and lw: "length weighted = length ?news"
      and each: "\<forall>i < length ?news.
                  t_sub ops (snd (?news ! i)) (snd (?olds ! i)) = Inr (deltas ! i) \<and>
                  t_mul ops (weights ! i) (deltas ! i) = Inr (weighted ! i)"
      and st: "t_stack_sum ops weighted = Inr computed"
      and ad: "t_add ops (snd (global_model ! k)) computed = Inr (snd (out ! k))"
      by blast
    have "\<forall>i < length client_updates.
                     t_sub ops (snd (new_model (client_updates ! i) ! k))
                               (snd (old_model (client_updates ! i) ! k)) = Inr (deltas ! i) \<and>
                     t_mul ops (weights ! i) (deltas ! i) = Inr (weighted ! i)"
      using each by simp
    then show ?thesis using ld lw st ad by auto
  qed
qed

text \<open>
  C6. The claim speaks of every parameter of the round. The loop on line 100 runs over
  \<^verbatim>\<open>zip\<close> of the columns of the new models, the columns of the old models and the
  global model, so it stops at the shortest of them: here the first update carries only
  \<^verbatim>\<open>w\<close>, and the parameter \<^verbatim>\<open>bn1\<close> of the global state has no value in the
  returned model.
\<close>

theorem bn_parameter_dropped_counterexample:
  "fst (aggregation_func example_ops 2 real \<lparr>window_size = 5, client_update = [(1, [0, 1]), (2, [0, 1])]\<rparr>
          ([(''w'', Tensor [1] [1]), (''bn1'', Tensor [1] [7])], 0)
          [(1, [(''w'', Tensor [1] [1])], [(''w'', Tensor [1] [2])], 0),
           (2, [(''w'', Tensor [1] [1]), (''bn1'', Tensor [1] [7])],
               [(''w'', Tensor [1] [3]), (''bn1'', Tensor [1] [9])], 0)])
     = Inr [(''w'', Tensor [1] [5 / 2])]"
  by (simp add: tracker_eval aggregation_eval example_eval)

text \<open>
  C6, as the code has it, for every tensor arithmetic: in every round that returns, the
  returned model has as many parameters as the shortest of the global model and the old
  and new models of the updates; every returned parameter has the name of the global
  parameter at its position; if the name contains \<^verbatim>\<open>bn\<close>, its value is the global
  value itself, whatever the updates carry; otherwise its value is
  \<^verbatim>\<open>global_param + torch.sum(torch.stack(weighted, 0), 0)\<close>, where the \<open>i\<close>-th
  element of \<^verbatim>\<open>weighted\<close> is the weight of the \<open>i\<close>-th update times (its new tensor
  minus its old tensor), each operation being the one of torch.
\<close>

theorem aggregation_output_params:
  assumes ok: "aggregation_func ops num_clients clock rt (global_model, version) client_updates = (Inr out, rt')"
    and w: "aggregation_weights num_clients (map fst client_updates) rt = (Inr (ratios, raw, weights), rt1)"
  shows "length out = min (min_len (map new_model client_updates))
                        (min (min_len (map old_model client_updates)) (length global_model)) \<and>
         (\<forall>k < length out.
            fst (out ! k) = fst (global_model ! k) \<and>
            (str_contains ''bn'' (fst (global_model ! k)) \<longrightarrow> snd (out ! k) = snd (global_model ! k)) \<and>
            (\<not> str_contains ''bn'' (fst (global_model ! k)) \<longrightarrow>
               (\<exists>deltas weighted computed.
                  length deltas = length client_updates \<and> length weighted = length client_updates \<and>
                  (\<forall>i < length client_updates.
                     t_sub ops (snd (new_model (client_updates ! i) ! k))
                               (snd (old_model (client_updates ! i) ! k)) = Inr (deltas ! i) \<and>
                     t_mul ops (weights ! i) (deltas ! i) = Inr (weighted ! i)) \<and>
                  t_stack_sum ops weighted = Inr computed \<and>
                  t_add ops (snd (global_model ! k)) computed = Inr (snd (out ! k)))))"
  using ok w by (rule aggregation_func_params)

theorem aggregation_output_params_witness:
  "aggregation_func example_ops 2 real \<lparr>window_size = 5, client_update = [(1, [0, 1]), (2, [0, 1])]\<rparr>
       ([(''w'', Tensor [1] [1]), (''bn1'', Tensor [1] [7])], 0)
       [(1, [(''w'', Tensor [1] [1]), (''bn1'', Tensor [1] [7])],
            [(''w'', Tensor [1] [2]), (''bn1'', Tensor [1] [8])], 0),
        (2, [(''w'', Tensor [1] [1]), (''bn1'', Tensor [1] [7])],
            [(''w'', Tensor [1] [3]), (''bn1'', Tensor [1] [9])], 0)]
     = (Inr [(''w'', Tensor [1] [5 / 2]), (''bn1'', Tensor [1] [7])],
        \<lparr>window_size = 5, client_update = [(1, [0, 1, 0]), (2, [0, 1, 1])]\<rparr>) \<and>
   length [(''w'', Tensor [1] [5 / 2]), (''bn1'', Tensor [1] [7])] = 2 \<and>
   snd ([(''w'', Tensor [1] [5 / 2]), (''bn1'', Tensor [1] [7])] ! 1) = Tensor [1] [7]"
proof -
  let ?rt = "\<lparr>window_size = 5, client_update = [(1, [0, 1]), (2, [0, 1])]\<rparr>"
  let ?g = "[(''w'', Tensor [1] [1]), (''bn1'', Tensor [1] [7])]"
  let ?us = "[(1, [(''w'', Tensor [1] [1]), (''bn1'', Tensor [1] [7])],
                  [(''w'', Tensor [1] [2]), (''bn1'', Tensor [1] [8])], 0),
              (2, [(''w'', Tensor [1] [1]), (''bn1'', Tensor [1] [7])],
                  [(''w'', Tensor [1] [3]), (''bn1'', Tensor [1] [9])], 0)]"
  let ?out = "[(''w'', Tensor [1] [5 / 2]), (''bn1'', Tensor [1] [7])]"
  let ?rt' = "\<lparr>window_size = 5, client_update = [(1, [0, 1, 0]), (2, [0, 1, 1])]\<rparr>"
  have ok: "aggregation_func example_ops 2 real ?rt (?g, 0) ?us = (Inr ?out, ?rt')"
    by (simp add: tracker_eval aggregation_eval example_eval)
  have w: "aggregation_weights 2 (map fst ?us) ?rt
             = (Inr ([1 / 2, 1 / 2], [1 / 2, 1 / 2], [1 / 2, 1 / 2]), ?rt)"
    by (simp add: tracker_eval aggregation_eval)
  note t = aggregation_output_params [OF ok w]
  from t have l: "length ?out = min (min_len (map new_model ?us))
                        (min (min_len (map old_model ?us)) (length ?g))" by (rule conjunct1)
  from t have "1 < length ?out \<longrightarrow> (str_contains ''bn'' (fst (?g ! 1)) \<longrightarrow> snd (?out ! 1) = snd (?g ! 1))"
    by blast
  then have b: "snd (?out ! 1) = Tensor [1] [7]" by simp
  from l have "length ?out = 2" by (simp add: new_model_def old_model_def)
  with ok b show ?thesis by blast
qed





section \<open>Properties of the client-runtime parser\<close>

text \<open>
  C4. The claim says that a token without the \<^verbatim>\<open>[count]\<close> suffix yields one worker.
  The code sets the count to 1 when the pattern does not match, and then calls
  \<^verbatim>\<open>raw_client.index("[")\<close>, which raises \<open>ValueError\<close> for a token without an
  opening bracket: the token \<^verbatim>\<open>i0.0\<close> is rejected, whatever \<^verbatim>\<open>float\<close> and the
  constructors do. With the suffix present the same token yields as many workers as the
  count says (shown with a \<^verbatim>\<open>float\<close> that keeps the text of the parameter and a
  constructor that records its class and its parameters).
\<close>

theorem client_runtimes_without_count_raises:
  "client_runtimes float_of make_runtime ''i0.0'' = Inl ValueError \<and>
   client_runtimes Some (curry Inr) ''i0.0[3]''
     = Inr [(InstantRuntime, [''0.0'']), (InstantRuntime, [''0.0'']), (InstantRuntime, [''0.0''])]"
  by (simp add: client_runtimes_def parse_raw_client_def CLIENT_TYPE_TO_MODEL_def is_digit_def
        int_of_digits_def numeral_3_eq_3)

end
